theory Spec2Isabelle
  imports Main
begin

section \<open>The platform registry and loader of lib/platformTools.js\<close>

text \<open>
  The module keeps one variable, \<^verbatim>\<open>registeredPlatforms\<close>, and talks to four
  collaborators: Node's \<^verbatim>\<open>require\<close>, the package tools
  (\<^verbatim>\<open>queuePackageInstallation\<close>, \<^verbatim>\<open>installQueuedPackages\<close>), the
  logger and the promise library Q. The collaborators are parameters of the model
  (an environment record); the calls made to them are recorded as events, in the
  order the code makes them.

  Conventions.
  \<^item> A string that may be missing (a property that is not there, an argument that
    is \<^verbatim>\<open>undefined\<close>) is an \<open>option\<close>; it is falsy when it is missing or
    empty. The property \<^verbatim>\<open>instance\<close> of a registry entry is any JavaScript
    value.
  \<^item> An object used as a dictionary holds its own properties, as an association
    list in the order of \<^verbatim>\<open>Object.keys\<close> or as a map. Reading \<^verbatim>\<open>obj[key]\<close>
    looks at the own properties first and then at those every plain object inherits
    from \<^verbatim>\<open>Object.prototype\<close> (\<^verbatim>\<open>toString\<close>, \<^verbatim>\<open>constructor\<close>, ...).
  \<^item> An exception is the left injection of a sum; a value thrown by foreign code is
    taken to be an object (its \<^verbatim>\<open>code\<close> can be read).
  \<^item> The optional node-style callback of the exported functions is left out:
    \<^verbatim>\<open>nodeify\<close> hands it the outcome of the promise modelled here.
\<close>

subsection \<open>Errors\<close>

datatype js_error =
    Error string
  | CustomError string js_error
  | TypeError string
  | Thrown "string option" string

text \<open>
  \<open>Error m\<close> is \<^verbatim>\<open>new Error(m)\<close> and \<open>CustomError m e\<close> is
  \<^verbatim>\<open>new CustomError(m, e)\<close>, both built by this module. \<open>TypeError m\<close> is
  raised by the language itself (a call of something that is not a function).
  \<open>Thrown c m\<close> is an
  error raised by foreign code (a failing \<^verbatim>\<open>require\<close>, a rejected installation):
  \<open>c\<close> is its \<^verbatim>\<open>code\<close> property and \<open>m\<close> its message.
\<close>

fun err_code :: "js_error \<Rightarrow> string option" where
  "err_code (Thrown c m) = c"
| "err_code (Error m) = None"
| "err_code (CustomError m e) = None"
| "err_code (TypeError m) = None"

definition quote :: string where
  "quote = [CHR 0x27]"

definition falsy :: "string option \<Rightarrow> bool" where
  "falsy s = (case s of None \<Rightarrow> True | Some v \<Rightarrow> v = [])"

definition js_string :: "string option \<Rightarrow> string" where
  "js_string s = (case s of None \<Rightarrow> ''undefined'' | Some v \<Rightarrow> v)"

subsection \<open>Values and plain objects\<close>

text \<open>
  A number is an integer or \<^verbatim>\<open>NaN\<close> here: a number with a fraction is truthy
  like any integer but zero. \<open>JObject\<close> holds an object, such as a platform
  instance.
\<close>

datatype 'o js_value =
    JUndefined
  | JNull
  | JBoolean bool
  | JNumber int
  | JNaN
  | JString string
  | JObject 'o

fun truthy :: "'o js_value \<Rightarrow> bool" where
  "truthy JUndefined = False"
| "truthy JNull = False"
| "truthy (JBoolean b) = b"
| "truthy (JNumber n) = (n \<noteq> 0)"
| "truthy JNaN = False"
| "truthy (JString s) = (s \<noteq> [])"
| "truthy (JObject x) = True"

text \<open>
  The properties of \<^verbatim>\<open>Object.prototype\<close>. Each of them is a function, or the
  prototype itself for \<^verbatim>\<open>__proto__\<close>: a truthy value that has none of the
  properties \<^verbatim>\<open>packageName\<close>, \<^verbatim>\<open>instance\<close> and \<^verbatim>\<open>push\<close>.
\<close>

definition object_prototype_keys :: "string list" where
  "object_prototype_keys =
     [''constructor'', ''__defineGetter__'', ''__defineSetter__'', ''hasOwnProperty'',
      ''__lookupGetter__'', ''__lookupSetter__'', ''isPrototypeOf'', ''propertyIsEnumerable'',
      ''toString'', ''valueOf'', ''__proto__'', ''toLocaleString'']"

datatype 'v property = Own 'v | Inherited | Missing

text \<open>\<^verbatim>\<open>obj[key]\<close> for a plain object with the own properties \<open>obj\<close>.\<close>

definition get_property :: "(string \<rightharpoonup> 'v) \<Rightarrow> string \<Rightarrow> 'v property" where
  "get_property obj key =
     (case obj key of
        Some v \<Rightarrow> Own v
      | None \<Rightarrow> if key \<in> set object_prototype_keys then Inherited else Missing)"

subsection \<open>The registry\<close>

record 'i platformInfo =
  packageName :: "string option"
  source :: "string option"
  loaded :: "'i js_value"

text \<open>
  The field \<open>loaded\<close> is the property \<^verbatim>\<open>instance\<close> of a registry entry
  (the word is reserved in Isabelle); it is \<open>JUndefined\<close> in an entry without one.
\<close>

type_synonym 'i registry = "(string \<times> 'i platformInfo) list"

definition registeredPlatforms_initial :: "'i registry" where
  "registeredPlatforms_initial = []"

definition enablePlatforms ::
  "string \<Rightarrow> 'i registry option \<Rightarrow> 'i registry option \<Rightarrow> js_error + 'i registry" where
  "enablePlatforms configPath defaultConfig platformConfig =
     (case platformConfig of
        Some config \<Rightarrow> Inr config
      | None \<Rightarrow>
          (case defaultConfig of
             Some config \<Rightarrow> Inr config
           | None \<Rightarrow> Inl (Error (''Platform configuration file is missing or invalid - path: ''
                 @ quote @ configPath @ quote @ ''.''))))"

text \<open>
  \<^verbatim>\<open>getAllPlatforms\<close> reads the own keys only, so each of them is found as an
  own property (an inherited value would give \<^verbatim>\<open>undefined\<close> for its
  \<^verbatim>\<open>instance\<close>).
\<close>

definition getAllPlatforms :: "'i registry \<Rightarrow> 'i js_value list" where
  "getAllPlatforms registeredPlatforms =
     map (\<lambda>key. case get_property (map_of registeredPlatforms) key of
                   Own platformInfo \<Rightarrow> loaded platformInfo
                 | Inherited \<Rightarrow> JUndefined
                 | Missing \<Rightarrow> JUndefined)
       (map fst registeredPlatforms)"

text \<open>
  In \<^verbatim>\<open>getPlatform\<close> an inherited value passes the first test, being truthy,
  and fails the second, having no \<^verbatim>\<open>instance\<close>.
\<close>

definition getPlatform :: "'i registry \<Rightarrow> string \<Rightarrow> js_error + 'i js_value" where
  "getPlatform registeredPlatforms platformId =
     (case get_property (map_of registeredPlatforms) platformId of
        Missing \<Rightarrow> Inl (Error (''The requested platform '' @ quote @ platformId @ quote
                 @ '' was not found.''))
      | Inherited \<Rightarrow> Inl (Error (''The requested platform '' @ quote @ platformId @ quote
                 @ '' was not loaded.''))
      | Own platformInfo \<Rightarrow>
          if truthy (loaded platformInfo) then Inr (loaded platformInfo)
          else Inl (Error (''The requested platform '' @ quote @ platformId @ quote
                 @ '' was not loaded.'')))"

subsection \<open>Calls to the collaborators\<close>

datatype event =
    LogDebug string
  | Require string
  | QueuePackageInstallation string string
  | InstallQueuedPackages
  | NewPlatform string "string list"

text \<open>
  \<open>Require n\<close> is an evaluation of \<^verbatim>\<open>require(n)\<close>, \<open>NewPlatform i ps\<close> one of
  \<^verbatim>\<open>new module.Platform(i, ps)\<close>; the others are the calls of the same name.
\<close>

subsection \<open>Promises of Q\<close>

text \<open>
  A promise is described by how it ends and by what its callbacks did on the way.
  Instants are logical: \<open>0\<close> is the synchronous run of the call that made the
  promise, later instants are given by the environment (when an installation
  ends). Callbacks chained with \<^verbatim>\<open>then\<close> run at the instant their promise is
  fulfilled. \<open>Never\<close> is a promise that stays pending.
\<close>

datatype 'a fate = Never | Fulfils nat 'a | Rejects nat js_error

datatype 'a promise = Promise (fate: "'a fate") (effects: "(nat \<times> event) list")

fun settle_time :: "'a fate \<Rightarrow> nat option" where
  "settle_time Never = None"
| "settle_time (Fulfils t v) = Some t"
| "settle_time (Rejects t e) = Some t"

definition q_reject :: "js_error \<Rightarrow> 'a promise" where
  "q_reject e = Promise (Rejects 0 e) []"

definition q_resolve :: "'a \<Rightarrow> 'a promise" where
  "q_resolve v = Promise (Fulfils 0 v) []"

text \<open>
  \<^verbatim>\<open>p.then(f)\<close>: \<open>f\<close> returns the calls it made and its result, \<open>Inl\<close> when it
  throws. A rejection or a pending promise is passed on and \<open>f\<close> does not run.
\<close>

definition q_then ::
  "'a promise \<Rightarrow> ('a \<Rightarrow> event list \<times> (js_error + 'b)) \<Rightarrow> 'b promise" where
  "q_then p f =
     (case fate p of
        Never \<Rightarrow> Promise Never (effects p)
      | Rejects t e \<Rightarrow> Promise (Rejects t e) (effects p)
      | Fulfils t v \<Rightarrow>
          (case f v of
             (evs, Inl e) \<Rightarrow> Promise (Rejects t e) (effects p @ map (Pair t) evs)
           | (evs, Inr w) \<Rightarrow> Promise (Fulfils t w) (effects p @ map (Pair t) evs)))"

text \<open>
  \<^verbatim>\<open>Q.all\<close> is rejected by the first rejection it hears of, whatever the other
  promises do; it is fulfilled, with the values in order, once all are fulfilled.
  Each promise comes with the number of \<^verbatim>\<open>then\<close> links behind it: Q passes a
  rejection along a link on a later turn of its queue, so that of two rejections of
  the same instant the one behind fewer links is heard first, and of two behind as
  many links the one of lower index.
\<close>

fun first_rejection :: "(nat \<times> 'a fate) list \<Rightarrow> (nat \<times> nat \<times> js_error) option" where
  "first_rejection [] = None"
| "first_rejection ((k, Rejects t e) # fs) =
     (case first_rejection fs of
        None \<Rightarrow> Some (t, k, e)
      | Some (t', k', e') \<Rightarrow>
          if t' < t \<or> (t' = t \<and> k' < k) then Some (t', k', e') else Some (t, k, e))"
| "first_rejection ((k, Never) # fs) = first_rejection fs"
| "first_rejection ((k, Fulfils t v) # fs) = first_rejection fs"

fun all_fulfilled :: "'a fate list \<Rightarrow> (nat \<times> 'a list) option" where
  "all_fulfilled [] = Some (0, [])"
| "all_fulfilled (Fulfils t v # fs) =
     (case all_fulfilled fs of
        None \<Rightarrow> None
      | Some (t', vs) \<Rightarrow> Some (max t t', v # vs))"
| "all_fulfilled (Never # fs) = None"
| "all_fulfilled (Rejects t e # fs) = None"

definition q_all :: "(nat \<times> 'a promise) list \<Rightarrow> 'a list promise" where
  "q_all ps =
     (case first_rejection (map (\<lambda>(k, p). (k, fate p)) ps) of
        Some (t, k, e) \<Rightarrow> Promise (Rejects t e) []
      | None \<Rightarrow>
          (case all_fulfilled (map (\<lambda>(k, p). fate p) ps) of
             Some (t, vs) \<Rightarrow> Promise (Fulfils t vs) []
           | None \<Rightarrow> Promise Never []))"

text \<open>\<^verbatim>\<open>Q.allSettled\<close> is fulfilled once every promise is fulfilled or rejected.\<close>

fun all_settled :: "'a fate list \<Rightarrow> nat option" where
  "all_settled [] = Some 0"
| "all_settled (Never # fs) = None"
| "all_settled (Fulfils t v # fs) = map_option (max t) (all_settled fs)"
| "all_settled (Rejects t e # fs) = map_option (max t) (all_settled fs)"

definition q_allSettled :: "'a promise list \<Rightarrow> 'a fate list promise" where
  "q_allSettled ps =
     (case all_settled (map fate ps) of
        None \<Rightarrow> Promise Never []
      | Some t \<Rightarrow> Promise (Fulfils t (map fate ps)) [])"

text \<open>
  \<^verbatim>\<open>p.finally(callback)\<close>, with \<open>q\<close> the promise the callback returns: the result
  ends as \<open>p\<close> does, but only after \<open>q\<close> has ended too; a rejection of \<open>q\<close> replaces
  the outcome.
\<close>

definition q_finally :: "'a promise \<Rightarrow> 'b promise \<Rightarrow> 'a promise" where
  "q_finally p q =
     Promise
       (case fate p of
          Never \<Rightarrow> Never
        | Fulfils t v \<Rightarrow>
            (case fate q of
               Never \<Rightarrow> Never
             | Fulfils t' w \<Rightarrow> Fulfils (max t t') v
             | Rejects t' e' \<Rightarrow> Rejects (max t t') e')
        | Rejects t e \<Rightarrow>
            (case fate q of
               Never \<Rightarrow> Never
             | Fulfils t' w \<Rightarrow> Rejects (max t t') e
             | Rejects t' e' \<Rightarrow> Rejects (max t t') e'))
       (effects p @ effects q)"

subsection \<open>The environment\<close>

datatype 'm require_result = Loaded 'm | Throws js_error

record ('m, 'c, 'i) env =
  require :: "string \<Rightarrow> 'm require_result"
  require_installed :: "string \<Rightarrow> 'm require_result"
  queuePackageInstallation :: "string \<Rightarrow> string \<Rightarrow> unit fate"
  Platform :: "'m \<Rightarrow> 'c"
  new_Platform :: "'c \<Rightarrow> string \<Rightarrow> string list \<Rightarrow> js_error + 'i"

text \<open>
  \<open>require\<close> answers \<^verbatim>\<open>require(name)\<close> during the synchronous part of a call,
  \<open>require_installed\<close> answers it in the callback that runs once the installation
  of \<open>name\<close> has been signalled. \<open>queuePackageInstallation\<close> gives the fate of the
  promise the package tools return. \<open>Platform\<close> reads the property of that name of
  a module, \<open>new_Platform\<close> runs the constructor (which may throw).
\<close>

subsection \<open>Loading one module\<close>

text \<open>
  The \<^verbatim>\<open>try\<close> block of \<^verbatim>\<open>getPlatformModule\<close>, reached with a name and a
  source that are not falsy.
\<close>

definition try_require ::
  "('m, 'c, 'i) env \<Rightarrow> string \<Rightarrow> string \<Rightarrow> event list \<times> 'm promise" where
  "try_require env name src =
     (case require env name of
        Loaded m \<Rightarrow> ([Require name], q_resolve m)
      | Throws err \<Rightarrow>
          if err_code err \<noteq> Some ''MODULE_NOT_FOUND'' then
            ([Require name],
             q_reject (CustomError (''Failed to resolve module: '' @ quote @ name @ quote @ ''.'')
               err))
          else
            ([Require name, QueuePackageInstallation name src],
             q_then (Promise (queuePackageInstallation env name src) [])
               (\<lambda>u. ([Require name],
                      case require_installed env name of
                        Loaded m \<Rightarrow> Inr m
                      | Throws err' \<Rightarrow> Inl err'))))"

definition getPlatformModule ::
  "('m, 'c, 'i) env \<Rightarrow> string option \<Rightarrow> string option \<Rightarrow> event list \<times> 'm promise" where
  "getPlatformModule env name src =
     (if falsy name then
        ([], q_reject (Error ''Platform name is missing or invalid.''))
      else if falsy src then
        ([], q_reject (Error ''Platform package source is missing or invalid.''))
      else try_require env (js_string name) (js_string src))"

definition loading_message :: "string \<Rightarrow> string" where
  "loading_message name = ''Loading platform module: '' @ name"

definition loadPlatform ::
  "('m, 'c, 'i) env \<Rightarrow> string option \<Rightarrow> string option \<Rightarrow> event list \<times> 'c promise" where
  "loadPlatform env name src =
     (case getPlatformModule env name src of
        (evs, p) \<Rightarrow>
          (LogDebug (loading_message (js_string name)) # evs,
           q_then p (\<lambda>m. ([], Inr (Platform env m)))))"

subsection \<open>Loading a batch\<close>

datatype 'c loaded_module =
  LoadedModule (mod_id: string) (mod_Platform: 'c) (mod_platforms: "string list")

datatype 'c task = ModuleTask string "'c promise" | RejectedTask js_error

record 'c reduce_state =
  platformMap :: "string \<rightharpoonup> string list"
  taskList :: "'c task list"
  events :: "event list"

definition not_registered :: "string \<Rightarrow> js_error" where
  "not_registered platformId =
     Error (''Platform '' @ quote @ platformId @ quote @ '' is not registered!'')"

text \<open>
  The callback of \<^verbatim>\<open>reduce\<close>. A task made for a module keeps the name of the
  module: the array \<^verbatim>\<open>platformList\<close> its callback closes over is the one stored
  in \<^verbatim>\<open>platformMap\<close> under that name, and later ids are pushed onto it there.
\<close>

definition reduce_step ::
  "('m, 'c, 'i) env \<Rightarrow> 'i registry \<Rightarrow> 'c reduce_state \<Rightarrow> string
     \<Rightarrow> js_error + 'c reduce_state" where
  "reduce_step env registeredPlatforms st platformId =
     (case get_property (map_of registeredPlatforms) platformId of
        Missing \<Rightarrow> Inr (st\<lparr>taskList := taskList st @ [RejectedTask (not_registered platformId)]\<rparr>)
      | Inherited \<Rightarrow>
          Inr (st\<lparr>taskList := taskList st @ [RejectedTask (not_registered platformId)]\<rparr>)
      | Own platformInfo \<Rightarrow>
          if falsy (packageName platformInfo) then
            Inr (st\<lparr>taskList := taskList st @ [RejectedTask (not_registered platformId)]\<rparr>)
          else
            (case get_property (platformMap st) (js_string (packageName platformInfo)) of
               Missing \<Rightarrow>
                 (case loadPlatform env (packageName platformInfo) (source platformInfo) of
                    (evs, p) \<Rightarrow>
                      Inr (st\<lparr>platformMap :=
                             (platformMap st)(js_string (packageName platformInfo) \<mapsto> [platformId]),
                           taskList :=
                             taskList st @ [ModuleTask (js_string (packageName platformInfo)) p],
                           events := events st @ evs\<rparr>))
             | Own platformList \<Rightarrow>
                 Inr (st\<lparr>platformMap :=
                        (platformMap st)(js_string (packageName platformInfo)
                          \<mapsto> platformList @ [platformId])\<rparr>)
             | Inherited \<Rightarrow> Inl (TypeError ''platformList.push is not a function'')))"

text \<open>
  \<^verbatim>\<open>registeredPlatforms[platformId]\<close> is truthy when inherited, but has no
  \<^verbatim>\<open>packageName\<close>: the id is reported as not registered.
  \<^verbatim>\<open>platformMap[packageName]\<close> is truthy when inherited too: no task is made,
  and \<^verbatim>\<open>platformList.push(platformId)\<close> throws, out of \<^verbatim>\<open>reduce\<close> and out of
  \<^verbatim>\<open>loadPlatforms\<close>.

  The callbacks given to \<^verbatim>\<open>then\<close> run after the synchronous part of
  \<^verbatim>\<open>loadPlatforms\<close>, hence after every \<^verbatim>\<open>push\<close>: a module task reads its list
  of ids from the final \<^verbatim>\<open>platformMap\<close>.
\<close>

definition platformList_of :: "(string \<rightharpoonup> string list) \<Rightarrow> string \<Rightarrow> string list" where
  "platformList_of pm name = (case pm name of Some platformList \<Rightarrow> platformList | None \<Rightarrow> [])"

definition task_promise ::
  "(string \<rightharpoonup> string list) \<Rightarrow> 'c task \<Rightarrow> 'c loaded_module promise" where
  "task_promise pm task =
     (case task of
        RejectedTask e \<Rightarrow> q_reject e
      | ModuleTask name p \<Rightarrow>
          q_then p (\<lambda>P. ([], Inr (LoadedModule name P (platformList_of pm name)))))"

text \<open>
  The links behind a task: none for \<^verbatim>\<open>Q.reject\<close>, two for a module task (the
  \<^verbatim>\<open>then\<close> of \<^verbatim>\<open>loadPlatform\<close> and that of \<^verbatim>\<open>loadPlatforms\<close>). The
  link behind the promise of the package tools is not counted: the instant of that
  promise is the environment's.
\<close>

fun task_links :: "'c task \<Rightarrow> nat" where
  "task_links (RejectedTask e) = 0"
| "task_links (ModuleTask name p) = 2"

fun create_instances ::
  "('m, 'c, 'i) env \<Rightarrow> 'c loaded_module list \<Rightarrow> event list \<times> (js_error + 'i list)" where
  "create_instances env [] = ([], Inr [])"
| "create_instances env (m # ms) =
     (case new_Platform env (mod_Platform m) (mod_id m) (mod_platforms m) of
        Inl e \<Rightarrow> ([NewPlatform (mod_id m) (mod_platforms m)], Inl e)
      | Inr i \<Rightarrow>
          (case create_instances env ms of
             (evs, Inl e) \<Rightarrow> (NewPlatform (mod_id m) (mod_platforms m) # evs, Inl e)
           | (evs, Inr is) \<Rightarrow> (NewPlatform (mod_id m) (mod_platforms m) # evs, Inr (i # is))))"

definition reduce_initial :: "'c reduce_state" where
  "reduce_initial = \<lparr>platformMap = Map.empty, taskList = [], events = []\<rparr>"

text \<open>
  The call \<^verbatim>\<open>platforms.reduce(..., [])\<close>, with \<^verbatim>\<open>platformMap\<close> empty at first.
  When the callback throws the loop ends there; the calls made so far are kept with
  the error.
\<close>

definition reduce_next ::
  "('m, 'c, 'i) env \<Rightarrow> 'i registry \<Rightarrow> (js_error \<times> event list) + 'c reduce_state \<Rightarrow> string
     \<Rightarrow> (js_error \<times> event list) + 'c reduce_state" where
  "reduce_next env registeredPlatforms acc platformId =
     (case acc of
        Inl thrown \<Rightarrow> Inl thrown
      | Inr st \<Rightarrow>
          (case reduce_step env registeredPlatforms st platformId of
             Inl e \<Rightarrow> Inl (e, events st)
           | Inr st' \<Rightarrow> Inr st'))"

definition reduce_platforms ::
  "('m, 'c, 'i) env \<Rightarrow> 'i registry \<Rightarrow> string list
     \<Rightarrow> (js_error \<times> event list) + 'c reduce_state" where
  "reduce_platforms env registeredPlatforms platforms =
     foldl (reduce_next env registeredPlatforms) (Inr reduce_initial) platforms"

text \<open>
  A call of \<^verbatim>\<open>loadPlatforms\<close>: \<open>sync\<close> lists the calls made before it returns
  or throws; \<open>outcome\<close> is the error thrown, or the batch: \<open>tasks\<close> are the
  promises in \<^verbatim>\<open>tasks\<close> and \<open>result\<close> is the promise returned (the callbacks of
  the tasks have their calls in \<open>effects\<close> of the tasks).
\<close>

datatype ('c, 'i) batch =
  Batch (tasks: "'c loaded_module promise list") (result: "'i list promise")

datatype ('c, 'i) call =
  Call (sync: "event list") (outcome: "js_error + ('c, 'i) batch")

definition loadPlatforms ::
  "('m, 'c, 'i) env \<Rightarrow> 'i registry \<Rightarrow> string list \<Rightarrow> ('c, 'i) call" where
  "loadPlatforms env registeredPlatforms platforms =
     (case reduce_platforms env registeredPlatforms platforms of
        Inl (e, evs) \<Rightarrow> Call evs (Inl e)
      | Inr st \<Rightarrow>
          Call (events st @ [InstallQueuedPackages])
            (Inr (Batch (map (task_promise (platformMap st)) (taskList st))
               (q_finally
                  (q_then
                     (q_all (map (\<lambda>task. (task_links task, task_promise (platformMap st) task))
                        (taskList st)))
                     (create_instances env))
                  (q_allSettled (map (task_promise (platformMap st)) (taskList st)))))))"

definition async_effects :: "('c, 'i) batch \<Rightarrow> (nat \<times> event) list" where
  "async_effects b = concat (map effects (tasks b)) @ effects (result b)"

subsection \<open>Notions used to state the properties\<close>

text \<open>
  The module that backs a platform id: the \<^verbatim>\<open>packageName\<close> of its registry
  entry, when the id is registered and the name is not falsy (the test of
  \<^verbatim>\<open>loadPlatforms\<close>).
\<close>

definition package_of :: "'i registry \<Rightarrow> string \<Rightarrow> string option" where
  "package_of reg platformId =
     (case map_of reg platformId of
        None \<Rightarrow> None
      | Some info \<Rightarrow> if falsy (packageName info) then None else Some (js_string (packageName info)))"

text \<open>
  No module of the batch bears the name of an inherited property: the batches for
  which \<^verbatim>\<open>loadPlatforms\<close> does not throw.
\<close>

definition plain_names :: "'i registry \<Rightarrow> string list \<Rightarrow> bool" where
  "plain_names reg platforms =
     list_all (\<lambda>platformId. case package_of reg platformId of
                               None \<Rightarrow> True
                             | Some name \<Rightarrow> name \<notin> set object_prototype_keys) platforms"

text \<open>The ids of a batch backed by a module, in the order of the batch.\<close>

definition ids_of :: "'i registry \<Rightarrow> string list \<Rightarrow> string \<Rightarrow> string list" where
  "ids_of reg platforms name = filter (\<lambda>platformId. package_of reg platformId = Some name) platforms"



text \<open>
  The task \<^verbatim>\<open>loadPlatforms\<close> builds from a registry entry: the module is loaded
  and the result is tagged with the module's name and with the ids it serves.
\<close>

definition load_task ::
  "('m, 'c, 'i) env \<Rightarrow> 'i platformInfo \<Rightarrow> string list \<Rightarrow> 'c loaded_module promise" where
  "load_task env info ids =
     q_then (snd (loadPlatform env (packageName info) (source info)))
       (\<lambda>P. ([], Inr (LoadedModule (js_string (packageName info)) P ids)))"

subsection \<open>A sample configuration\<close>

text \<open>
  Platforms \<open>a\<close> and \<open>b\<close> share the module \<open>modA\<close>, which is installed; \<open>c\<close> is
  backed by \<open>modC\<close>, which is not and gets installed at instant 5; \<open>d\<close> is backed by
  \<open>modD\<close>, whose loading fails; \<open>e\<close> has no package name. Modules and constructors
  are numbers, an instance is the triple the constructor was called with.
\<close>

definition example_env :: "(nat, nat, nat \<times> string \<times> string list) env" where
  "example_env =
     \<lparr>require = (\<lambda>n. if n = ''modA'' then Loaded 1
                     else if n = ''modD'' then Throws (Thrown (Some ''ERR_REQUIRE_ESM'') ''unsupported'')
                     else Throws (Thrown (Some ''MODULE_NOT_FOUND'') ''Cannot find module'')),
      require_installed = (\<lambda>n. Loaded 3),
      queuePackageInstallation = (\<lambda>n s. Fulfils 5 ()),
      Platform = (\<lambda>m. m + 10),
      new_Platform = (\<lambda>c i ps. Inr (c, i, ps))\<rparr>"

definition example_registry :: "(nat \<times> string \<times> string list) registry" where
  "example_registry =
     [(''a'', \<lparr>packageName = Some ''modA'', source = Some ''src'', loaded = JUndefined\<rparr>),
      (''b'', \<lparr>packageName = Some ''modA'', source = Some ''src'', loaded = JUndefined\<rparr>),
      (''c'', \<lparr>packageName = Some ''modC'', source = Some ''src2'', loaded = JUndefined\<rparr>),
      (''d'', \<lparr>packageName = Some ''modD'', source = Some ''src3'', loaded = JUndefined\<rparr>),
      (''e'', \<lparr>packageName = None, source = Some ''src4'', loaded = JUndefined\<rparr>)]"

text \<open>
  A second registry: \<open>c\<close> as before, and \<open>k\<close> and \<open>l\<close> backed by a module
  named \<open>constructor\<close>.
\<close>

definition inherited_name_registry :: "(nat \<times> string \<times> string list) registry" where
  "inherited_name_registry =
     [(''c'', \<lparr>packageName = Some ''modC'', source = Some ''src2'', loaded = JUndefined\<rparr>),
      (''k'', \<lparr>packageName = Some ''constructor'', source = Some ''src5'', loaded = JUndefined\<rparr>),
      (''l'', \<lparr>packageName = Some ''constructor'', source = Some ''src5'', loaded = JUndefined\<rparr>)]"

section \<open>The module loader\<close>

text \<open>
  C8. When the module name or the install source is missing or empty,
  \<^verbatim>\<open>getPlatformModule\<close> returns a promise that is already rejected, with an error
  saying which argument is invalid, and makes no call at all: the package tools are
  not contacted, nothing is required.
\<close>

theorem getPlatformModule_invalid_argument:
  "(falsy name \<longrightarrow>
      getPlatformModule env name src =
        ([], Promise (Rejects 0 (Error ''Platform name is missing or invalid.'')) []))
   \<and> (\<not> falsy name \<and> falsy src \<longrightarrow>
      getPlatformModule env name src =
        ([], Promise (Rejects 0 (Error ''Platform package source is missing or invalid.'')) []))"
  by (simp add: getPlatformModule_def q_reject_def)

theorem getPlatformModule_invalid_argument_witness:
  "getPlatformModule example_env (Some []) (Some ''src'') =
     ([], Promise (Rejects 0 (Error ''Platform name is missing or invalid.'')) [])
   \<and> getPlatformModule example_env (Some ''modA'') None =
     ([], Promise (Rejects 0 (Error ''Platform package source is missing or invalid.'')) [])"
  using getPlatformModule_invalid_argument
          [where name = "Some []" and src = "Some ''src''" and env = example_env]
        getPlatformModule_invalid_argument
          [where name = "Some ''modA''" and src = None and env = example_env]
  by (simp add: falsy_def)

text \<open>
  C7. When \<^verbatim>\<open>require\<close> fails with an error whose code is not
  \<^verbatim>\<open>MODULE_NOT_FOUND\<close>, \<^verbatim>\<open>getPlatformModule\<close> returns a promise rejected with a
  \<^verbatim>\<open>CustomError\<close> that wraps the error, and the only call made is that
  \<^verbatim>\<open>require\<close>: no installation is queued.
\<close>

theorem getPlatformModule_resolution_error:
  assumes "name \<noteq> []" and "src \<noteq> []"
    and "require env name = Throws err"
    and "err_code err \<noteq> Some ''MODULE_NOT_FOUND''"
  shows "getPlatformModule env (Some name) (Some src) =
     ([Require name],
      Promise (Rejects 0
        (CustomError (''Failed to resolve module: '' @ quote @ name @ quote @ ''.'') err)) [])"
  using assms
  by (simp add: getPlatformModule_def try_require_def falsy_def js_string_def q_reject_def)

theorem getPlatformModule_resolution_error_witness:
  "getPlatformModule example_env (Some ''modD'') (Some ''src3'') =
     ([Require ''modD''],
      Promise (Rejects 0
        (CustomError (''Failed to resolve module: '' @ quote @ ''modD'' @ quote @ ''.'')
           (Thrown (Some ''ERR_REQUIRE_ESM'') ''unsupported''))) [])"
  using getPlatformModule_resolution_error
          [where name = "''modD''" and src = "''src3''" and env = example_env
             and err = "Thrown (Some ''ERR_REQUIRE_ESM'') ''unsupported''"]
  by (simp add: example_env_def)

text \<open>
  C5. When the name and the source are not empty and \<^verbatim>\<open>require\<close> fails with
  code \<^verbatim>\<open>MODULE_NOT_FOUND\<close>, \<^verbatim>\<open>getPlatformModule\<close> calls
  \<^verbatim>\<open>queuePackageInstallation\<close> once with the name and the source, and nothing
  else: it does not run the installation. The promise it returns follows the promise
  of the package tools: once that one is fulfilled the module is required again, at
  that instant, and the promise is fulfilled with the module (or rejected with what
  this second \<^verbatim>\<open>require\<close> throws); if the installation is rejected or never
  signalled, the module is not required again.
\<close>

theorem getPlatformModule_queues_missing_module:
  assumes "name \<noteq> []" and "src \<noteq> []"
    and "require env name = Throws err"
    and "err_code err = Some ''MODULE_NOT_FOUND''"
  shows "getPlatformModule env (Some name) (Some src) =
     ([Require name, QueuePackageInstallation name src],
      case queuePackageInstallation env name src of
        Never \<Rightarrow> Promise Never []
      | Rejects t e \<Rightarrow> Promise (Rejects t e) []
      | Fulfils t u \<Rightarrow>
          (case require_installed env name of
             Loaded m \<Rightarrow> Promise (Fulfils t m) [(t, Require name)]
           | Throws e \<Rightarrow> Promise (Rejects t e) [(t, Require name)]))"
  using assms
  by (simp add: getPlatformModule_def try_require_def falsy_def js_string_def q_then_def
      split: fate.splits require_result.splits)

theorem getPlatformModule_queues_missing_module_witness:
  "getPlatformModule example_env (Some ''modC'') (Some ''src2'') =
     ([Require ''modC'', QueuePackageInstallation ''modC'' ''src2''],
      Promise (Fulfils 5 3) [(5, Require ''modC'')])"
  using getPlatformModule_queues_missing_module
          [where name = "''modC''" and src = "''src2''" and env = example_env
             and err = "Thrown (Some ''MODULE_NOT_FOUND'') ''Cannot find module''"]
  by (simp add: example_env_def)

section \<open>Reading the registry\<close>

text \<open>
  C4, as the code has it. \<^verbatim>\<open>getAllPlatforms\<close> returns one element for every
  registered entry, in the order of the keys: the instance of the entry, or
  \<^verbatim>\<open>undefined\<close> when the entry has none. Nothing is left out.
\<close>

theorem getAllPlatforms_one_element_per_entry:
  "length (getAllPlatforms reg) = length reg
   \<and> (distinct (map fst reg) \<longrightarrow>
        getAllPlatforms reg = map (\<lambda>entry. loaded (snd entry)) reg)"
  by (auto simp: getAllPlatforms_def get_property_def)

theorem getAllPlatforms_one_element_per_entry_witness:
  "length (getAllPlatforms example_registry) = 5
   \<and> getAllPlatforms example_registry = map (\<lambda>entry. loaded (snd entry)) example_registry"
  using getAllPlatforms_one_element_per_entry [where reg = example_registry]
  by (simp add: example_registry_def)

text \<open>
  C4 as first stated fails. The entries of the sample registry have no instance, and
  \<^verbatim>\<open>getAllPlatforms\<close> returns five elements for them, all \<^verbatim>\<open>undefined\<close>, not
  the empty list.
\<close>

theorem getAllPlatforms_omits_counterexample:
  "getAllPlatforms example_registry =
     [JUndefined, JUndefined, JUndefined, JUndefined, JUndefined]"
  by (simp add: getAllPlatforms_def get_property_def example_registry_def)

text \<open>
  C9, as the code has it by design. For an id that is a key of the registry,
  \<^verbatim>\<open>getPlatform\<close> returns the instance of the entry when it is truthy and throws
  the error "was not loaded" when it is \<^verbatim>\<open>null\<close>, \<^verbatim>\<open>undefined\<close> or another
  falsy value. For an id that is not the name of a property inherited from
  \<^verbatim>\<open>Object.prototype\<close>: \<^verbatim>\<open>getPlatform\<close> throws the error "was not found"
  when the id is not a key of the registry; and before any call of
  \<^verbatim>\<open>enablePlatforms\<close>, the registry being the empty object, it throws that same
  error. \<^verbatim>\<open>enablePlatforms\<close> with a configuration makes that configuration the
  registry, as it is. What an inherited name that is not a key gives is left out.
\<close>

theorem getPlatform_cases:
  "(\<forall>info. map_of (reg :: 'i registry) platformId = Some info \<longrightarrow>
        getPlatform reg platformId =
          (if truthy (loaded info) then Inr (loaded info)
           else Inl (Error (''The requested platform '' @ quote @ platformId @ quote
                        @ '' was not loaded.''))))
   \<and> (platformId \<notin> set object_prototype_keys \<longrightarrow>
        (map_of reg platformId = None \<longrightarrow>
           getPlatform reg platformId =
             Inl (Error (''The requested platform '' @ quote @ platformId @ quote
                    @ '' was not found.'')))
        \<and> getPlatform (registeredPlatforms_initial :: 'i registry) platformId =
             Inl (Error (''The requested platform '' @ quote @ platformId @ quote
                    @ '' was not found.'')))
   \<and> enablePlatforms configPath defaultConfig (Some reg) = Inr reg"
  by (simp add: getPlatform_def get_property_def registeredPlatforms_initial_def
      enablePlatforms_def)

theorem getPlatform_cases_witness:
  "getPlatform example_registry ''android'' =
     Inl (Error (''The requested platform '' @ quote @ ''android'' @ quote @ '' was not found.''))
   \<and> getPlatform example_registry ''a'' =
     Inl (Error (''The requested platform '' @ quote @ ''a'' @ quote @ '' was not loaded.''))
   \<and> getPlatform
        [(''a'', \<lparr>packageName = Some ''modA'', source = Some ''src'',
                  loaded = JObject (7::nat)\<rparr>)] ''a'' =
     Inr (JObject 7)
   \<and> getPlatform
        [(''a'', \<lparr>packageName = Some ''modA'', source = Some ''src'',
                  loaded = (JNumber 0 :: nat js_value)\<rparr>)] ''a'' =
     Inl (Error (''The requested platform '' @ quote @ ''a'' @ quote @ '' was not loaded.''))"
proof -
  have plain: "''android'' \<notin> set object_prototype_keys"
    by (simp add: object_prototype_keys_def)
  have absent: "map_of example_registry ''android'' = None"
    by (simp add: example_registry_def)
  have unloaded: "map_of example_registry ''a'' =
      Some \<lparr>packageName = Some ''modA'', source = Some ''src'', loaded = JUndefined\<rparr>"
    by (simp add: example_registry_def)
  have ready: "map_of [(''a'', \<lparr>packageName = Some ''modA'', source = Some ''src'',
      loaded = JObject (7::nat)\<rparr>)] ''a'' =
      Some \<lparr>packageName = Some ''modA'', source = Some ''src'', loaded = JObject 7\<rparr>"
    by simp
  have zero: "map_of [(''a'', \<lparr>packageName = Some ''modA'', source = Some ''src'',
      loaded = (JNumber 0 :: nat js_value)\<rparr>)] ''a'' =
      Some \<lparr>packageName = Some ''modA'', source = Some ''src'', loaded = JNumber 0\<rparr>"
    by simp
  show ?thesis
    using getPlatform_cases [where reg = example_registry and platformId = "''android''"]
          getPlatform_cases [where reg = example_registry and platformId = "''a''"]
          getPlatform_cases
            [where reg = "[(''a'', \<lparr>packageName = Some ''modA'', source = Some ''src'',
                                    loaded = JObject (7::nat)\<rparr>)]"
               and platformId = "''a''"]
          getPlatform_cases
            [where reg = "[(''a'', \<lparr>packageName = Some ''modA'', source = Some ''src'',
                                    loaded = (JNumber 0 :: nat js_value)\<rparr>)]"
               and platformId = "''a''"]
    by (simp only: absent unloaded ready zero plain) simp
qed

text \<open>
  C9 as first stated fails. Before any call of \<^verbatim>\<open>enablePlatforms\<close>,
  \<^verbatim>\<open>getPlatform\<close> fails with the error of an id that is not registered, the same
  as in a registry that has been enabled and lacks the id: there is no separate
  condition for a registry that has not been set. And for the id \<open>toString\<close>,
  which is in no registry here, the error is "was not loaded", not "was not found".
\<close>

theorem getPlatform_before_enable_counterexample:
  "getPlatform (registeredPlatforms_initial :: (nat \<times> string \<times> string list) registry) ''android'' =
     Inl (Error (''The requested platform '' @ quote @ ''android'' @ quote @ '' was not found.''))
   \<and> getPlatform registeredPlatforms_initial ''android'' = getPlatform example_registry ''android''
   \<and> getPlatform example_registry ''toString'' =
     Inl (Error (''The requested platform '' @ quote @ ''toString'' @ quote @ '' was not loaded.''))"
  by (simp add: getPlatform_def get_property_def object_prototype_keys_def
      registeredPlatforms_initial_def example_registry_def)

section \<open>Loading a batch\<close>

subsection \<open>One step of the loop\<close>

lemma package_of_SomeD:
  "package_of reg x = Some n \<Longrightarrow>
   \<exists>info. map_of reg x = Some info \<and> packageName info = Some n \<and> n \<noteq> []"
  by (auto simp add: package_of_def falsy_def js_string_def split: option.splits if_splits)

lemma reduce_step_unregistered:
  "package_of reg x = None \<Longrightarrow>
   reduce_step env reg st x =
     Inr (st\<lparr>taskList := taskList st @ [RejectedTask (not_registered x)]\<rparr>)"
  by (auto simp add: reduce_step_def package_of_def get_property_def
      split: option.splits if_splits)

lemma reduce_step_known:
  "package_of reg x = Some n \<Longrightarrow> platformMap st n = Some l \<Longrightarrow>
   reduce_step env reg st x = Inr (st\<lparr>platformMap := (platformMap st)(n \<mapsto> l @ [x])\<rparr>)"
  by (auto simp add: reduce_step_def package_of_def get_property_def
      split: option.splits if_splits)

lemma reduce_step_new:
  "package_of reg x = Some n \<Longrightarrow> platformMap st n = None \<Longrightarrow>
   n \<notin> set object_prototype_keys \<Longrightarrow> map_of reg x = Some info \<Longrightarrow>
   reduce_step env reg st x =
     Inr (st\<lparr>platformMap := (platformMap st)(n \<mapsto> [x]),
        taskList := taskList st @ [ModuleTask n (snd (loadPlatform env (packageName info) (source info)))],
        events := events st @ fst (loadPlatform env (packageName info) (source info))\<rparr>)"
  by (auto simp add: reduce_step_def package_of_def get_property_def
      split: option.splits if_splits prod.splits)

lemma reduce_step_inherited:
  "package_of reg x = Some n \<Longrightarrow> platformMap st n = None \<Longrightarrow>
   n \<in> set object_prototype_keys \<Longrightarrow>
   reduce_step env reg st x = Inl (TypeError ''platformList.push is not a function'')"
  by (auto simp add: reduce_step_def package_of_def get_property_def
      split: option.splits if_splits)

lemma reduce_step_cases:
  obtains
    (unregistered) "package_of reg x = None"
      "reduce_step env reg st x =
         Inr (st\<lparr>taskList := taskList st @ [RejectedTask (not_registered x)]\<rparr>)"
  | (known) n l where "package_of reg x = Some n" "platformMap st n = Some l"
      "reduce_step env reg st x = Inr (st\<lparr>platformMap := (platformMap st)(n \<mapsto> l @ [x])\<rparr>)"
  | (new) n info where "package_of reg x = Some n" "platformMap st n = None"
      "n \<notin> set object_prototype_keys"
      "map_of reg x = Some info" "packageName info = Some n"
      "reduce_step env reg st x =
         Inr (st\<lparr>platformMap := (platformMap st)(n \<mapsto> [x]),
            taskList := taskList st @ [ModuleTask n (snd (loadPlatform env (Some n) (source info)))],
            events := events st @ fst (loadPlatform env (Some n) (source info))\<rparr>)"
  | (inherited) n where "package_of reg x = Some n" "platformMap st n = None"
      "n \<in> set object_prototype_keys"
      "reduce_step env reg st x = Inl (TypeError ''platformList.push is not a function'')"
proof (cases "package_of reg x")
  case None
  then show ?thesis using unregistered reduce_step_unregistered by blast
next
  case (Some n)
  then obtain info where info: "map_of reg x = Some info" "packageName info = Some n"
    using package_of_SomeD by blast
  show ?thesis
  proof (cases "platformMap st n")
    case None
    show ?thesis
    proof (cases "n \<in> set object_prototype_keys")
      case True
      from reduce_step_inherited [OF Some None True, where env = env] show ?thesis
        using inherited [OF Some None True] by simp
    next
      case False
      from reduce_step_new [OF Some None False info(1), where env = env] info(2) show ?thesis
        using new [OF Some None False info] by simp
    qed
  next
    case (Some l)
    from reduce_step_known [OF \<open>package_of reg x = Some n\<close> Some, where env = env] show ?thesis
      using known [OF \<open>package_of reg x = Some n\<close> Some] by simp
  qed
qed

subsection \<open>The loop\<close>

lemma reduce_platforms_Nil: "reduce_platforms env reg [] = Inr reduce_initial"
  by (simp add: reduce_platforms_def)

lemma reduce_platforms_snoc:
  "reduce_platforms env reg (xs @ [x]) = reduce_next env reg (reduce_platforms env reg xs) x"
  by (simp add: reduce_platforms_def)

lemma reduce_snoc_Inr:
  "reduce_platforms env reg (xs @ [x]) = Inr st' \<Longrightarrow>
   \<exists>st. reduce_platforms env reg xs = Inr st \<and> reduce_step env reg st x = Inr st'"
  by (auto simp add: reduce_platforms_snoc reduce_next_def split: sum.splits)

lemma reduce_induct [consumes 1, case_names Nil snoc]:
  assumes "reduce_platforms env reg xs = Inr st"
    and "P [] reduce_initial"
    and "\<And>xs x st st'. reduce_platforms env reg xs = Inr st \<Longrightarrow> P xs st \<Longrightarrow>
           reduce_step env reg st x = Inr st' \<Longrightarrow> P (xs @ [x]) st'"
  shows "P xs st"
  using assms(1)
proof (induction xs arbitrary: st rule: rev_induct)
  case Nil
  then show ?case using assms(2) by (simp add: reduce_platforms_Nil)
next
  case (snoc x xs)
  from reduce_snoc_Inr [OF snoc.prems] obtain st0 where
    st0: "reduce_platforms env reg xs = Inr st0" "reduce_step env reg st0 x = Inr st"
    by blast
  from assms(3) [OF st0(1) snoc.IH [OF st0(1)] st0(2)] show ?case .
qed

lemma ids_of_snoc:
  "ids_of reg (xs @ [x]) n = (if package_of reg x = Some n then ids_of reg xs n @ [x] else ids_of reg xs n)"
  by (simp add: ids_of_def)

lemma platformMap_reduce:
  assumes "reduce_platforms env reg xs = Inr st"
  shows "platformMap st n = (if ids_of reg xs n = [] then None else Some (ids_of reg xs n))"
  using assms
proof (induction arbitrary: n rule: reduce_induct)
  case Nil
  show ?case by (simp add: reduce_initial_def ids_of_def)
next
  case (snoc xs x st st')
  show ?case
  proof (cases rule: reduce_step_cases [where reg = reg and x = x and st = st and env = env])
    case unregistered
    then show ?thesis using snoc by (auto simp add: ids_of_snoc)
  next
    case (known m l)
    then show ?thesis using snoc by (auto simp add: ids_of_snoc split: if_splits)
  next
    case (new m info)
    then show ?thesis using snoc by (auto simp add: ids_of_snoc split: if_splits)
  next
    case (inherited m)
    then show ?thesis using snoc by simp
  qed
qed

lemma platformMap_fresh:
  "reduce_platforms env reg xs = Inr st \<Longrightarrow> platformMap st n = None \<longleftrightarrow> ids_of reg xs n = []"
  by (simp add: platformMap_reduce)



lemma getPlatformModule_events:
  "fst (getPlatformModule env name src) = []
   \<or> fst (getPlatformModule env name src) = [Require (js_string name)]
   \<or> fst (getPlatformModule env name src) =
       [Require (js_string name), QueuePackageInstallation (js_string name) (js_string src)]"
  by (simp add: getPlatformModule_def try_require_def split: require_result.splits)

lemma loadPlatform_events:
  "fst (loadPlatform env name src) =
     LogDebug (loading_message (js_string name)) # fst (getPlatformModule env name src)"
  by (simp add: loadPlatform_def split: prod.splits)

lemma loading_message_inject [simp]: "loading_message a = loading_message b \<longleftrightarrow> a = b"
  by (simp add: loading_message_def)



lemma loadPlatform_no_install:
  "InstallQueuedPackages \<notin> set (fst (loadPlatform env name src))"
  using getPlatformModule_events [of env name src]
  by (auto simp add: loadPlatform_events)



lemma step_no_install:
  assumes "reduce_step env reg st x = Inr st'"
    and "InstallQueuedPackages \<notin> set (events st)"
  shows "InstallQueuedPackages \<notin> set (events st')"
  by (cases rule: reduce_step_cases [where reg = reg and x = x and st = st and env = env])
    (use assms in \<open>auto simp add: loadPlatform_no_install\<close>)

lemma events_no_install:
  assumes "reduce_platforms env reg xs = Inr st"
  shows "InstallQueuedPackages \<notin> set (events st)"
  using assms
proof (induction rule: reduce_induct)
  case Nil
  show ?case by (simp add: reduce_initial_def)
next
  case (snoc xs x st st')
  then show ?case using step_no_install by blast
qed

lemma taskList_grows:
  "reduce_step env reg st x = Inr st' \<Longrightarrow> set (taskList st) \<subseteq> set (taskList st')"
  by (cases rule: reduce_step_cases [where reg = reg and x = x and st = st and env = env]) auto

lemma rejected_task_in_reduce:
  assumes "reduce_platforms env reg xs = Inr st"
  shows "z \<in> set xs \<Longrightarrow> package_of reg z = None \<Longrightarrow>
    RejectedTask (not_registered z) \<in> set (taskList st)"
  using assms
proof (induction rule: reduce_induct)
  case Nil
  then show ?case by simp
next
  case (snoc xs x st st')
  show ?case
  proof (cases "z \<in> set xs")
    case True
    then show ?thesis using snoc taskList_grows by blast
  next
    case False
    then have "z = x" using snoc.prems by simp
    then show ?thesis using snoc by (auto simp add: reduce_step_unregistered)
  qed
qed

lemma first_module_task:
  assumes "reduce_platforms env reg xs = Inr st"
  shows "ids_of reg xs n \<noteq> [] \<Longrightarrow>
   \<exists>info. map_of reg (hd (ids_of reg xs n)) = Some info \<and> packageName info = Some n
     \<and> ModuleTask n (snd (loadPlatform env (Some n) (source info))) \<in> set (taskList st)"
  using assms
proof (induction rule: reduce_induct)
  case Nil
  then show ?case by (simp add: ids_of_def)
next
  case (snoc xs x st st')
  show ?case
  proof (cases "ids_of reg xs n = []")
    case False
    then obtain info where "map_of reg (hd (ids_of reg xs n)) = Some info"
      "packageName info = Some n"
      "ModuleTask n (snd (loadPlatform env (Some n) (source info))) \<in> set (taskList st)"
      using snoc.IH by blast
    moreover have "hd (ids_of reg (xs @ [x]) n) = hd (ids_of reg xs n)"
      using False by (simp add: ids_of_snoc)
    ultimately show ?thesis
      using taskList_grows [OF snoc.hyps(2)] by auto
  next
    case True
    then have x: "package_of reg x = Some n"
      using snoc.prems by (simp add: ids_of_snoc split: if_splits)
    then have hd: "hd (ids_of reg (xs @ [x]) n) = x"
      using True by (simp add: ids_of_snoc)
    show ?thesis
    proof (cases rule: reduce_step_cases [where reg = reg and x = x and st = st and env = env])
      case unregistered
      then show ?thesis using x by simp
    next
      case (known m l)
      then show ?thesis using x True platformMap_fresh [OF snoc.hyps(1), of n] by simp
    next
      case (new m info)
      then show ?thesis using x hd snoc.hyps(2) by auto
    next
      case (inherited m)
      then show ?thesis using snoc by simp
    qed
  qed
qed

lemma task_form:
  assumes "reduce_platforms env reg xs = Inr st"
  shows "task \<in> set (taskList st) \<Longrightarrow>
   (\<exists>x. task = RejectedTask (not_registered x))
   \<or> (\<exists>n src. task = ModuleTask n (snd (loadPlatform env (Some n) src)))"
  using assms
proof (induction rule: reduce_induct)
  case Nil
  then show ?case by (simp add: reduce_initial_def)
next
  case (snoc xs x st st')
  show ?case
    by (cases rule: reduce_step_cases [where reg = reg and x = x and st = st and env = env])
      (use snoc in \<open>auto\<close>)
qed

text \<open>The loop ends without an error exactly when no module bears an inherited name.\<close>

lemma plain_names_snoc:
  "plain_names reg (xs @ [x]) \<longleftrightarrow>
     plain_names reg xs
     \<and> (\<forall>n. package_of reg x = Some n \<longrightarrow> n \<notin> set object_prototype_keys)"
  by (auto simp add: plain_names_def split: option.splits)


lemma reduce_returns_plain:
  assumes "reduce_platforms env reg xs = Inr st"
  shows "plain_names reg xs"
  using assms
proof (induction rule: reduce_induct)
  case Nil
  show ?case by (simp add: plain_names_def)
next
  case (snoc xs x st st')
  show ?case
  proof (cases rule: reduce_step_cases [where reg = reg and x = x and st = st and env = env])
    case unregistered
    then show ?thesis using snoc by (simp add: plain_names_snoc)
  next
    case (known m l)
    then have "ids_of reg xs m \<noteq> []"
      using platformMap_fresh [OF snoc.hyps(1), of m] by simp
    then obtain y where "y \<in> set xs" "package_of reg y = Some m"
      by (auto simp add: ids_of_def filter_empty_conv)
    then have "m \<notin> set object_prototype_keys"
      using snoc.IH by (auto simp add: plain_names_def list_all_iff)
    then show ?thesis using known snoc by (simp add: plain_names_snoc)
  next
    case (new m info)
    then show ?thesis using snoc by (simp add: plain_names_snoc)
  next
    case (inherited m)
    then show ?thesis using snoc by simp
  qed
qed

lemma reduce_thrown_no_install:
  "reduce_platforms env reg xs = Inl (e, evs) \<Longrightarrow> InstallQueuedPackages \<notin> set evs"
proof (induction xs arbitrary: e evs rule: rev_induct)
  case Nil
  then show ?case by (simp add: reduce_platforms_Nil)
next
  case (snoc x xs)
  show ?case
  proof (cases "reduce_platforms env reg xs")
    case (Inl thrown)
    then show ?thesis using snoc by (cases thrown) (auto simp add: reduce_platforms_snoc reduce_next_def)
  next
    case (Inr st)
    then have "evs = events st"
      using snoc.prems by (auto simp add: reduce_platforms_snoc reduce_next_def split: sum.splits)
    then show ?thesis using events_no_install [OF Inr] by simp
  qed
qed

subsection \<open>Waiting for the tasks\<close>

lemma all_settled_bound:
  "all_settled fs = Some T \<Longrightarrow> f \<in> set fs \<Longrightarrow> \<exists>t\<le>T. settle_time f = Some t"
proof (induction fs arbitrary: T rule: all_settled.induct)
  case 1
  then show ?case by simp
next
  case (2 fs)
  then show ?case by simp
next
  case (3 t v fs)
  then obtain T' where T': "all_settled fs = Some T'" "T = max t T'"
    by auto
  show ?case
  proof (cases "f = Fulfils t v")
    case True
    then show ?thesis using T' by simp
  next
    case False
    then have "f \<in> set fs" using 3 by simp
    then obtain u where "u \<le> T'" "settle_time f = Some u" using 3 T' by blast
    then show ?thesis using T' by auto
  qed
next
  case (4 t e fs)
  then obtain T' where T': "all_settled fs = Some T'" "T = max t T'"
    by auto
  show ?case
  proof (cases "f = Rejects t e")
    case True
    then show ?thesis using T' by simp
  next
    case False
    then have "f \<in> set fs" using 4 by simp
    then obtain u where "u \<le> T'" "settle_time f = Some u" using 4 T' by blast
    then show ?thesis using T' by auto
  qed
qed

lemma all_settled_total:
  "(\<forall>f\<in>set fs. f \<noteq> Never) \<Longrightarrow> all_settled fs \<noteq> None"
  by (induction fs rule: all_settled.induct) auto

lemma all_fulfilled_total:
  "(\<forall>f\<in>set (map snd kfs). f \<noteq> Never) \<Longrightarrow> first_rejection kfs = None \<Longrightarrow>
   all_fulfilled (map snd kfs) \<noteq> None"
  by (induction kfs rule: first_rejection.induct) (auto split: option.splits if_splits)

lemma q_finally_waits:
  "settle_time (fate (q_finally p q)) = Some T \<Longrightarrow> \<exists>t\<le>T. settle_time (fate q) = Some t"
  by (auto simp add: q_finally_def split: fate.splits)

lemma q_allSettled_time:
  "settle_time (fate (q_allSettled ts)) = Some t \<Longrightarrow> all_settled (map fate ts) = Some t"
  by (auto simp add: q_allSettled_def split: option.splits)

lemma result_waits_for_tasks:
  assumes "settle_time (fate (q_finally p (q_allSettled ts))) = Some T" and "task \<in> set ts"
  shows "\<exists>t\<le>T. settle_time (fate task) = Some t"
proof -
  from assms(1) obtain t' where t': "t' \<le> T" "settle_time (fate (q_allSettled ts)) = Some t'"
    using q_finally_waits by blast
  then have "all_settled (map fate ts) = Some t'"
    by (simp add: q_allSettled_time)
  moreover have "fate task \<in> set (map fate ts)" using assms(2) by simp
  ultimately obtain t where "t \<le> t'" "settle_time (fate task) = Some t"
    using all_settled_bound by blast
  then show ?thesis using t'(1) by auto
qed

lemma q_then_not_Never: "fate p \<noteq> Never \<Longrightarrow> fate (q_then p f) \<noteq> Never"
  by (auto simp add: q_then_def split: fate.splits prod.splits sum.splits)

lemma q_all_fates:
  "map (\<lambda>(k, p). fate p) (map (\<lambda>task. (h task, g task)) ts) = map (\<lambda>task. fate (g task)) ts"
  "map snd (map (\<lambda>(k, p). (k, fate p)) (map (\<lambda>task. (h task, g task)) ts)) =
     map (\<lambda>task. fate (g task)) ts"
  by simp_all

lemma result_settles:
  assumes "\<forall>task\<in>set ts. fate (g task) \<noteq> Never"
  shows "fate (q_finally (q_then (q_all (map (\<lambda>task. (h task, g task)) ts)) f)
           (q_allSettled (map g ts))) \<noteq> Never"
proof -
  let ?ps = "map (\<lambda>task. (h task, g task)) ts"
  let ?kfs = "map (\<lambda>(k, p). (k, fate p)) ?ps"
  have snd: "map snd ?kfs = map (\<lambda>task. fate (g task)) ts"
    by (rule q_all_fates)
  have "\<forall>f\<in>set (map (\<lambda>task. fate (g task)) ts). f \<noteq> Never" using assms by auto
  then have fs: "\<forall>f\<in>set (map snd ?kfs). f \<noteq> Never" by (simp only: snd)
  have fs': "\<forall>f\<in>set (map fate (map g ts)). f \<noteq> Never" using assms by auto
  have "fate (q_allSettled (map g ts)) \<noteq> Never"
    using all_settled_total [OF fs'] by (auto simp add: q_allSettled_def split: option.splits)
  moreover have "fate (q_all ?ps) \<noteq> Never"
  proof (cases "first_rejection ?kfs")
    case None
    from all_fulfilled_total [OF fs None]
    have "all_fulfilled (map (\<lambda>task. fate (g task)) ts) \<noteq> None"
      unfolding snd .
    then have "all_fulfilled (map (\<lambda>(k, p). fate p) ?ps) \<noteq> None"
      unfolding q_all_fates(1) .
    then show ?thesis
      using None by (auto simp add: q_all_def split: option.splits)
  next
    case (Some r)
    then show ?thesis by (auto simp add: q_all_def split: prod.splits)
  qed
  then have "fate (q_then (q_all ?ps) f) \<noteq> Never" by (rule q_then_not_Never)
  ultimately show ?thesis
    by (auto simp add: q_finally_def split: fate.splits)
qed

subsection \<open>Callbacks and the calls they make\<close>

lemma q_then_effects_plain: "effects (q_then p (\<lambda>v. ([], Inr (g v)))) = effects p"
  by (simp add: q_then_def split: fate.splits)




lemma create_instances_events:
  "e \<in> set (fst (create_instances env mods)) \<Longrightarrow> \<exists>n ps. e = NewPlatform n ps"
  by (induction mods arbitrary: e) (auto split: sum.splits prod.splits)






lemma q_then_effects:
  "effects (q_then p f) =
     (case fate p of
        Fulfils t v \<Rightarrow> effects p @ map (Pair t) (fst (f v))
      | Never \<Rightarrow> effects p
      | Rejects t e \<Rightarrow> effects p)"
  by (simp add: q_then_def split: fate.splits prod.splits sum.splits)

lemma q_all_effects: "effects (q_all ps) = []"
  by (auto simp add: q_all_def split: option.splits prod.splits)

lemma q_allSettled_effects: "effects (q_allSettled ts) = []"
  by (auto simp add: q_allSettled_def split: option.splits)


lemma result_effects:
  assumes "(t, e) \<in> set (effects (q_finally (q_then (q_all ps) (create_instances env))
      (q_allSettled ts)))"
  shows "\<exists>n ps. e = NewPlatform n ps"
proof -
  from assms have "(t, e) \<in> set (effects (q_then (q_all ps) (create_instances env)))"
    by (simp add: q_finally_def q_allSettled_effects)
  then have "\<exists>mods. e \<in> set (fst (create_instances env mods))"
    by (auto simp add: q_then_effects q_all_effects split: fate.splits)
  then show ?thesis using create_instances_events by blast
qed

lemma getPlatformModule_effects:
  "(t, e) \<in> set (effects (snd (getPlatformModule env name src))) \<Longrightarrow> e = Require (js_string name)"
  by (auto simp add: getPlatformModule_def try_require_def q_reject_def q_resolve_def q_then_def
      split: if_splits require_result.splits fate.splits)

lemma loadPlatform_effects:
  "(t, e) \<in> set (effects (snd (loadPlatform env name src))) \<Longrightarrow> e = Require (js_string name)"
  using getPlatformModule_effects [where env = env and name = name and src = src and t = t and e = e]
  by (auto simp add: loadPlatform_def q_then_effects_plain split: prod.splits)

lemma load_task_pending:
  "fate (load_task env info ids) = Never \<Longrightarrow>
   queuePackageInstallation env (js_string (packageName info)) (js_string (source info)) = Never"
  by (auto simp add: load_task_def loadPlatform_def getPlatformModule_def try_require_def
      q_then_def q_reject_def q_resolve_def
      split: prod.splits if_splits require_result.splits fate.splits sum.splits)

subsection \<open>The call as a whole\<close>

lemma loadPlatforms_returned:
  assumes "outcome (loadPlatforms env reg xs) = Inr b"
  obtains st where "reduce_platforms env reg xs = Inr st"
    and "sync (loadPlatforms env reg xs) = events st @ [InstallQueuedPackages]"
    and "tasks b = map (task_promise (platformMap st)) (taskList st)"
    and "result b =
      q_finally
        (q_then (q_all (map (\<lambda>task. (task_links task, task_promise (platformMap st) task))
           (taskList st))) (create_instances env))
        (q_allSettled (map (task_promise (platformMap st)) (taskList st)))"
  using assms by (auto simp add: loadPlatforms_def split: sum.splits prod.splits)

lemma loadPlatforms_thrown:
  assumes "outcome (loadPlatforms env reg xs) = Inl e"
  shows "reduce_platforms env reg xs = Inl (e, sync (loadPlatforms env reg xs))"
  using assms by (auto simp add: loadPlatforms_def split: sum.splits prod.splits)


lemma platformList_of_reduce:
  "reduce_platforms env reg xs = Inr st \<Longrightarrow> platformList_of (platformMap st) n = ids_of reg xs n"
  by (simp add: platformList_of_def platformMap_reduce)

lemma task_effects:
  assumes "outcome (loadPlatforms env reg xs) = Inr b"
    and "p \<in> set (tasks b)" and "(t, e) \<in> set (effects p)"
  shows "\<exists>n. e = Require n"
proof -
  from assms(1) obtain st where st: "reduce_platforms env reg xs = Inr st"
    and ts: "tasks b = map (task_promise (platformMap st)) (taskList st)"
    by (rule loadPlatforms_returned)
  from assms(2) ts obtain task where task: "task \<in> set (taskList st)"
    and p: "p = task_promise (platformMap st) task"
    by auto
  from task_form [OF st task] show ?thesis
  proof
    assume "\<exists>x. task = RejectedTask (not_registered x)"
    then show ?thesis using p assms(3) by (auto simp add: task_promise_def q_reject_def)
  next
    assume "\<exists>n src. task = ModuleTask n (snd (loadPlatform env (Some n) src))"
    then show ?thesis using p assms(3) loadPlatform_effects
      by (fastforce simp add: task_promise_def q_then_effects_plain)
  qed
qed



lemma load_task_in_tasks:
  assumes "outcome (loadPlatforms env reg xs) = Inr b"
    and "x \<in> set xs" and "package_of reg x = Some n"
  shows "\<exists>info. map_of reg (hd (ids_of reg xs n)) = Some info \<and> packageName info = Some n
     \<and> load_task env info (ids_of reg xs n) \<in> set (tasks b)"
proof -
  from assms(1) obtain st where st: "reduce_platforms env reg xs = Inr st"
    and ts: "tasks b = map (task_promise (platformMap st)) (taskList st)"
    by (rule loadPlatforms_returned)
  have "ids_of reg xs n \<noteq> []" using assms(2,3) by (auto simp add: ids_of_def filter_empty_conv)
  from first_module_task [OF st this] obtain info where
    info: "map_of reg (hd (ids_of reg xs n)) = Some info" "packageName info = Some n"
    and task: "ModuleTask n (snd (loadPlatform env (Some n) (source info))) \<in> set (taskList st)"
    by blast
  have "task_promise (platformMap st)
      (ModuleTask n (snd (loadPlatform env (Some n) (source info)))) =
      load_task env info (ids_of reg xs n)"
    using info(2)
    by (simp add: task_promise_def load_task_def platformList_of_reduce [OF st] js_string_def)
  then have "load_task env info (ids_of reg xs n) \<in> set (tasks b)"
    using task by (force simp add: ts)
  then show ?thesis using info by blast
qed

lemma rejected_in_tasks:
  assumes "outcome (loadPlatforms env reg xs) = Inr b"
    and "x \<in> set xs" and "package_of reg x = None"
  shows "q_reject (not_registered x) \<in> set (tasks b)"
proof -
  from assms(1) obtain st where st: "reduce_platforms env reg xs = Inr st"
    and ts: "tasks b = map (task_promise (platformMap st)) (taskList st)"
    by (rule loadPlatforms_returned)
  have "task_promise (platformMap st) (RejectedTask (not_registered x))
      \<in> task_promise (platformMap st) ` set (taskList st)"
    using rejected_task_in_reduce [OF st assms(2,3)] by (rule imageI)
  then show ?thesis
    by (simp add: ts task_promise_def)
qed








text \<open>The definitions unfolded to run the model on the sample configurations.\<close>

lemmas eval_defs = loadPlatforms_def reduce_platforms_def reduce_next_def reduce_initial_def
  reduce_step_def get_property_def object_prototype_keys_def
  example_env_def example_registry_def inherited_name_registry_def
  falsy_def js_string_def loadPlatform_def getPlatformModule_def
  try_require_def q_then_def q_all_def q_allSettled_def q_finally_def q_reject_def q_resolve_def
  task_promise_def platformList_of_def

subsection \<open>Properties of \<^verbatim>\<open>loadPlatforms\<close>\<close>




text \<open>
  C2 fails on the code. \<^verbatim>\<open>loadPlatforms\<close> reads \<^verbatim>\<open>registeredPlatforms\<close> and
  never writes it: no statement of the file assigns the property \<^verbatim>\<open>instance\<close>
  of an entry. On the sample configuration the batch \<open>a\<close>, \<open>b\<close> is fulfilled
  with the one instance made for \<open>modA\<close>, and \<^verbatim>\<open>getPlatform\<close> still throws
  "was not loaded" for both ids.
\<close>

theorem loadPlatforms_leaves_registry_unloaded:
  "loadPlatforms example_env example_registry [''a'', ''b''] =
     Call [LogDebug (loading_message ''modA''), Require ''modA'', InstallQueuedPackages]
       (Inr (Batch
          [Promise (Fulfils 0 (LoadedModule ''modA'' 11 [''a'', ''b''])) []]
          (Promise (Fulfils 0 [(11, ''modA'', [''a'', ''b''])])
             [(0, NewPlatform ''modA'' [''a'', ''b''])])))
   \<and> getPlatform example_registry ''a'' =
       Inl (Error (''The requested platform '' @ quote @ ''a'' @ quote @ '' was not loaded.''))
   \<and> getPlatform example_registry ''b'' =
       Inl (Error (''The requested platform '' @ quote @ ''b'' @ quote @ '' was not loaded.''))"
  by (simp add: eval_defs getPlatform_def)

text \<open>
  When \<^verbatim>\<open>loadPlatforms\<close> returns its promise, the promise waits for every task:
  whenever it is fulfilled or rejected, at instant \<open>T\<close>, every task of the batch has
  been fulfilled or rejected by then, and it is fulfilled or rejected as soon as all
  tasks are. An id that is not registered contributes a task rejected with the
  error "is not registered", and a registered id contributes the task that loads
  its module, made from the entry of the first id of the batch backed by that
  module and tagged with all the ids the module backs. Such a task stays pending
  only if the package tools never signal the installation it queued.
\<close>

lemma loadPlatforms_waits_when_returned:
  assumes "outcome (loadPlatforms env reg platforms) = Inr batch"
  shows "(\<forall>T. settle_time (fate (result batch)) = Some T \<longrightarrow>
      (\<forall>task\<in>set (tasks batch). \<exists>t\<le>T. settle_time (fate task) = Some t))
   \<and> ((\<forall>task\<in>set (tasks batch). fate task \<noteq> Never) \<longrightarrow> fate (result batch) \<noteq> Never)
   \<and> (\<forall>platformId\<in>set platforms. package_of reg platformId = None \<longrightarrow>
        q_reject (not_registered platformId) \<in> set (tasks batch))
   \<and> (\<forall>platformId\<in>set platforms. \<forall>name. package_of reg platformId = Some name \<longrightarrow>
        (\<exists>info. map_of reg (hd (ids_of reg platforms name)) = Some info
           \<and> packageName info = Some name
           \<and> load_task env info (ids_of reg platforms name) \<in> set (tasks batch)))
   \<and> (\<forall>info ids. fate (load_task env info ids) = Never \<longrightarrow>
        queuePackageInstallation env (js_string (packageName info)) (js_string (source info)) = Never)"
proof -
  from assms obtain st where st: "reduce_platforms env reg platforms = Inr st"
    and sync: "sync (loadPlatforms env reg platforms) = events st @ [InstallQueuedPackages]"
    and ts: "tasks batch = map (task_promise (platformMap st)) (taskList st)"
    and res: "result batch =
      q_finally
        (q_then (q_all (map (\<lambda>task. (task_links task, task_promise (platformMap st) task))
           (taskList st))) (create_instances env))
        (q_allSettled (map (task_promise (platformMap st)) (taskList st)))"
    by (rule loadPlatforms_returned)
  show ?thesis
  proof (intro conjI allI impI ballI)
    fix T task
    assume "settle_time (fate (result batch)) = Some T" and "task \<in> set (tasks batch)"
    then show "\<exists>t\<le>T. settle_time (fate task) = Some t"
      unfolding res ts by (rule result_waits_for_tasks)
  next
    assume "\<forall>task\<in>set (tasks batch). fate task \<noteq> Never"
    then have "\<forall>task\<in>set (taskList st). fate (task_promise (platformMap st) task) \<noteq> Never"
      by (simp add: ts)
    then show "fate (result batch) \<noteq> Never"
      unfolding res by (rule result_settles)
  next
    fix platformId
    assume "platformId \<in> set platforms" and "package_of reg platformId = None"
    then show "q_reject (not_registered platformId) \<in> set (tasks batch)"
      using rejected_in_tasks [OF assms] by blast
  next
    fix platformId name
    assume "platformId \<in> set platforms" and "package_of reg platformId = Some name"
    then show "\<exists>info. map_of reg (hd (ids_of reg platforms name)) = Some info
           \<and> packageName info = Some name
           \<and> load_task env info (ids_of reg platforms name) \<in> set (tasks batch)"
      using load_task_in_tasks [OF assms] by blast
  next
    fix info ids
    assume "fate (load_task env info ids) = Never"
    then show "queuePackageInstallation env (js_string (packageName info)) (js_string (source info))
        = Never"
      by (rule load_task_pending)
  qed
qed

text \<open>
  C3 fails on the code. In the second registry \<open>c\<close> is backed by \<open>modC\<close>, which
  is missing, \<open>zzz\<close> is not registered and \<open>k\<close> is backed by a module named
  \<open>constructor\<close>. For the batch \<open>c\<close>, \<open>zzz\<close>, \<open>k\<close> the task of \<open>modC\<close> is made and
  its installation queued, the rejected task of \<open>zzz\<close> is made, and then
  \<^verbatim>\<open>platformMap[packageName]\<close> is the inherited \<^verbatim>\<open>Object\<close>: \<^verbatim>\<open>push\<close> throws.
  \<^verbatim>\<open>loadPlatforms\<close> throws and returns no promise: no task is made for \<open>k\<close>,
  the installation queued for \<open>modC\<close> is not run by this call, and the failure
  of \<open>zzz\<close> is not reported.
\<close>

theorem loadPlatforms_throws_before_waiting:
  "loadPlatforms example_env inherited_name_registry [''c'', ''zzz'', ''k''] =
     Call [LogDebug (loading_message ''modC''), Require ''modC'',
           QueuePackageInstallation ''modC'' ''src2'']
       (Inl (TypeError ''platformList.push is not a function''))"
  by (simp add: eval_defs)

text \<open>
  When \<^verbatim>\<open>loadPlatforms\<close> returns its promise, the calls made before end with
  \<^verbatim>\<open>installQueuedPackages\<close>, which is not called before: every task has been
  made, and every installation queued, when it is called. The callbacks that run
  later only require modules again and call constructors, so the call is made
  exactly once. When \<^verbatim>\<open>loadPlatforms\<close> throws, it has not been called.
\<close>

lemma loadPlatforms_installs_once_when_returned:
  assumes "outcome (loadPlatforms env reg platforms) = Inr batch"
  shows "(\<exists>pre. sync (loadPlatforms env reg platforms) = pre @ [InstallQueuedPackages]
        \<and> InstallQueuedPackages \<notin> set pre)
   \<and> count_list (sync (loadPlatforms env reg platforms) @ map snd (async_effects batch))
        InstallQueuedPackages = 1
   \<and> (\<forall>e\<in>set (map snd (async_effects batch)).
        (\<exists>n. e = Require n) \<or> (\<exists>n ps. e = NewPlatform n ps))"
proof -
  from assms obtain st where st: "reduce_platforms env reg platforms = Inr st"
    and sync: "sync (loadPlatforms env reg platforms) = events st @ [InstallQueuedPackages]"
    and ts: "tasks batch = map (task_promise (platformMap st)) (taskList st)"
    and res: "result batch =
      q_finally
        (q_then (q_all (map (\<lambda>task. (task_links task, task_promise (platformMap st) task))
           (taskList st))) (create_instances env))
        (q_allSettled (map (task_promise (platformMap st)) (taskList st)))"
    by (rule loadPlatforms_returned)
  have pre: "InstallQueuedPackages \<notin> set (events st)"
    using st by (rule events_no_install)
  have async: "\<forall>e\<in>set (map snd (async_effects batch)).
        (\<exists>n. e = Require n) \<or> (\<exists>n ps. e = NewPlatform n ps)"
  proof
    fix e
    assume "e \<in> set (map snd (async_effects batch))"
    then obtain t where "(t, e) \<in> set (async_effects batch)"
      by auto
    then consider p where "p \<in> set (tasks batch)" "(t, e) \<in> set (effects p)"
      | "(t, e) \<in> set (effects (result batch))"
      by (auto simp add: async_effects_def)
    then show "(\<exists>n. e = Require n) \<or> (\<exists>n ps. e = NewPlatform n ps)"
    proof cases
      case 1
      then show ?thesis using task_effects [OF assms] by blast
    next
      case 2
      then show ?thesis unfolding res using result_effects by blast
    qed
  qed
  then have "InstallQueuedPackages \<notin> set (map snd (async_effects batch))"
    by blast
  then have "count_list (map snd (async_effects batch)) InstallQueuedPackages = 0"
    by (simp add: count_list_0_iff)
  moreover have "count_list (events st) InstallQueuedPackages = 0"
    using pre by (simp add: count_list_0_iff)
  ultimately have "count_list (sync (loadPlatforms env reg platforms)
          @ map snd (async_effects batch)) InstallQueuedPackages = 1"
    by (simp add: sync)
  then show ?thesis using pre async by (simp add: sync)
qed

lemma loadPlatforms_no_install_when_thrown:
  assumes "outcome (loadPlatforms env reg platforms) = Inl e"
  shows "InstallQueuedPackages \<notin> set (sync (loadPlatforms env reg platforms))"
  using reduce_thrown_no_install [OF loadPlatforms_thrown [OF assms]] .

text \<open>
  C6 fails on the code. For the batch \<open>c\<close>, \<open>k\<close> of the second registry the
  installation of \<open>modC\<close> is queued, and \<^verbatim>\<open>push\<close> throws on \<open>k\<close>, at line 82 of
  the file, before \<^verbatim>\<open>installQueuedPackages\<close> at line 92:
  \<^verbatim>\<open>installQueuedPackages\<close> is called zero times in this call.
\<close>

theorem loadPlatforms_throws_before_installing:
  "loadPlatforms example_env inherited_name_registry [''c'', ''k''] =
     Call [LogDebug (loading_message ''modC''), Require ''modC'',
           QueuePackageInstallation ''modC'' ''src2'']
       (Inl (TypeError ''platformList.push is not a function''))
   \<and> count_list (sync (loadPlatforms example_env inherited_name_registry [''c'', ''k'']))
       InstallQueuedPackages = 0"
  by (simp add: eval_defs)



end
